theory Spec2Isabelle
  imports Main
begin

section \<open>The conversation handler of telegram.ext (conversationhandler.py)\<close>

text \<open>
  A shallow embedding of the class \<open>ConversationHandler\<close>: its constructor, \<open>check_update\<close>
  and \<open>handle_update\<close>. The instance is a record that the two methods take and return;
  an exception is a value \<open>Inl e\<close>; each call that \<open>check_update\<close> makes on a collaborator
  (a handler's \<open>check_update\<close>, the state table's \<open>get\<close>, a promise's \<open>result\<close>, the
  logger) is recorded, in program order, in a list of calls returned beside the result.
\<close>

subsection \<open>Values and exceptions\<close>

datatype error = AttributeError | KeyError | Exception string

text \<open>
  Modelled from the spec: the class \<open>telegram.utils.promise.Promise\<close> is imported by the
  module and is not part of the source at hand. A promise is identified with the outcome its
  computation has once it completes: a value, or a failure that \<open>result()\<close> propagates to
  the caller ("Failure while resolving a Pending Result is propagated to the caller"). The wait
  itself is not represented. The other constructors are the Python values a state can be:
  \<open>None\<close>, an integer, a string.
\<close>

datatype pyval = PyNone | PyInt int | PyStr string | Promise (result: "error + pyval")

text \<open>\<open>END = -1\<close>, the class attribute.\<close>

definition END :: pyval where
  "END = PyInt (- 1)"

subsection \<open>Updates\<close>

text \<open>
  The classes of \<open>telegram\<close> that \<open>check_update\<close> reads, reduced to the attributes it reads
  and the text of a message, which \<open>check_update\<close> does not read and handlers do.
  Every attribute may be \<open>None\<close> in Python, so every one is an option here; \<open>from_user\<close> of a
  message is optional in the Bot API itself. An object is true in a condition exactly when it
  is not \<open>None\<close>.
\<close>

datatype User = User (user_id: int)

datatype Chat = Chat (chat_id: int)

datatype Message =
  Message (msg_from_user: "User option") (msg_chat: "Chat option") (msg_text: string)

datatype InlineQuery = InlineQuery (iq_from_user: "User option")

datatype ChosenInlineResult = ChosenInlineResult (cir_from_user: "User option")

datatype CallbackQuery =
  CallbackQuery (cq_from_user: "User option") (cq_message: "Message option")

record Update =
  message :: "Message option"
  edited_message :: "Message option"
  inline_query :: "InlineQuery option"
  chosen_inline_result :: "ChosenInlineResult option"
  callback_query :: "CallbackQuery option"

text \<open>What a dispatcher may pass as \<open>update\<close>: an instance of \<open>Update\<close>, or anything else.\<close>

datatype event = Is_Update Update | Not_Update

subsection \<open>Handlers and the instance\<close>

text \<open>
  A handler is an object with the two methods of \<open>telegram.ext.Handler\<close>. Its \<open>check_update\<close>
  is only ever called on an \<open>Update\<close>; its \<open>handle_update\<close> receives whatever the
  conversation handler was given, and may raise. The dispatcher argument is passed through
  unread and is left out.
\<close>

record Handler =
  handler_check_update :: "Update \<Rightarrow> bool"
  handler_handle_update :: "event \<Rightarrow> error + pyval"

text \<open>
  The key of a conversation is the tuple \<open>(chat.id, user.id)\<close> or \<open>(None, user.id)\<close>.
  \<open>current_conversation\<close> is \<open>None\<close> until a check succeeds and \<open>handle_update\<close> indexes the
  dictionary with it as it is, so the dictionary's keys are \<open>None\<close> or a tuple.
\<close>

type_synonym key = "int option \<times> int"

record ConversationHandler =
  entry_points :: "Handler list"
  states :: "pyval \<rightharpoonup> Handler list"
  fallbacks :: "Handler list"
  allow_reentry :: bool
  conversations :: "key option \<rightharpoonup> pyval"
  current_conversation :: "key option"
  current_handler :: "Handler option"

definition init ::
  "Handler list \<Rightarrow> (pyval \<rightharpoonup> Handler list) \<Rightarrow> Handler list \<Rightarrow> bool \<Rightarrow> ConversationHandler"
where
  "init eps sts fbs reentry =
     \<lparr>entry_points = eps, states = sts, fallbacks = fbs, allow_reentry = reentry,
      conversations = Map.empty, current_conversation = None, current_handler = None\<rparr>"

subsection \<open>The calls check_update makes\<close>

datatype call =
    Debug_waiting
  | Promise_result pyval
  | Debug_selecting key pyval
  | Entry_point_check Handler
  | States_get pyval
  | Candidate_check Handler
  | Fallback_check Handler

subsection \<open>check_update\<close>

text \<open>
  Lines 88 to 110: the user and the chat of the update, by the first attribute of the update
  that is set; \<open>None\<close> is the \<open>return False\<close> of the last branch.
\<close>

definition user_and_chat :: "Update \<Rightarrow> (User option \<times> Chat option) option" where
  "user_and_chat update =
     (case message update of
        Some m \<Rightarrow> Some (msg_from_user m, msg_chat m)
      | None \<Rightarrow>
     (case edited_message update of
        Some m \<Rightarrow> Some (msg_from_user m, msg_chat m)
      | None \<Rightarrow>
     (case inline_query update of
        Some q \<Rightarrow> Some (iq_from_user q, None)
      | None \<Rightarrow>
     (case chosen_inline_result update of
        Some r \<Rightarrow> Some (cir_from_user r, None)
      | None \<Rightarrow>
     (case callback_query update of
        Some c \<Rightarrow>
          Some (cq_from_user c,
                (case cq_message c of Some m \<Rightarrow> msg_chat m | None \<Rightarrow> None))
      | None \<Rightarrow> None)))))"

text \<open>
  Line 112: \<open>key = (chat.id, user.id) if chat else (None, user.id)\<close>. Both branches read
  \<open>user.id\<close>, which raises AttributeError when \<open>user\<close> is \<open>None\<close>.
\<close>

definition make_key :: "Chat option \<Rightarrow> User option \<Rightarrow> error + key" where
  "make_key chat user =
     (case user of
        None \<Rightarrow> Inl AttributeError
      | Some u \<Rightarrow>
          (case chat of
             Some c \<Rightarrow> Inr (Some (chat_id c), user_id u)
           | None \<Rightarrow> Inr (None, user_id u)))"

text \<open>
  Lines 113 to 119: \<open>self.conversations.get(key)\<close>, the promise resolved when the stored value
  is one, and the debug message that names the state.
\<close>

definition get_state :: "ConversationHandler \<Rightarrow> key \<Rightarrow> (error + pyval) \<times> call list" where
  "get_state self k =
     (let state = (case conversations self (Some k) of None \<Rightarrow> PyNone | Some v \<Rightarrow> v) in
      case state of
        Promise r \<Rightarrow>
          (case r of
             Inl e \<Rightarrow> (Inl e, [Debug_waiting, Promise_result state])
           | Inr v \<Rightarrow> (Inr v, [Debug_waiting, Promise_result state, Debug_selecting k v]))
      | _ \<Rightarrow> (Inr state, [Debug_selecting k state]))"

text \<open>
  A \<open>for\<close> loop with \<open>break\<close> over a list of handlers: the handler found, if any (the loop's
  \<open>else\<close> clause runs exactly when none is), and the calls made.
\<close>

fun scan :: "(Handler \<Rightarrow> call) \<Rightarrow> Handler list \<Rightarrow> Update \<Rightarrow> Handler option \<times> call list" where
  "scan site [] update = (None, [])"
| "scan site (h # hs) update =
     (if handler_check_update h update then (Some h, [site h])
      else (case scan site hs update of (found, calls) \<Rightarrow> (found, site h # calls)))"

text \<open>
  The selection either leaves through a \<open>return False\<close> or reaches line 154 with the local
  variable \<open>handler\<close>.
\<close>

datatype selection = Return_False | Reached "Handler option"

text \<open>Lines 136 and 138: \<open>self.states.get(state)\<close>, then \<open>handlers or []\<close>.\<close>

definition registered :: "ConversationHandler \<Rightarrow> pyval \<Rightarrow> Handler list" where
  "registered self state = (case states self state of None \<Rightarrow> [] | Some hs \<Rightarrow> hs)"

text \<open>
  Lines 135 to 151, entered with the value \<open>handler\<close> has after the entry points. A handler
  object is true in a condition, so \<open>not handler\<close> holds exactly when \<open>handler\<close> is \<open>None\<close>.
\<close>

definition state_handlers ::
  "ConversationHandler \<Rightarrow> Update \<Rightarrow> pyval \<Rightarrow> Handler option \<Rightarrow> selection \<times> call list"
where
  "state_handlers self update state handler =
     (if state \<noteq> PyNone \<and> handler = None then
        (case scan Candidate_check (registered self state) update of
           (Some c, calls) \<Rightarrow> (Reached (Some c), States_get state # calls)
         | (None, calls) \<Rightarrow>
             (case scan Fallback_check (fallbacks self) update of
                (Some f, calls') \<Rightarrow> (Reached (Some f), States_get state # calls @ calls')
              | (None, calls') \<Rightarrow> (Return_False, States_get state # calls @ calls')))
      else (Reached handler, []))"

text \<open>Lines 121 to 151.\<close>

definition select_handler ::
  "ConversationHandler \<Rightarrow> Update \<Rightarrow> pyval \<Rightarrow> selection \<times> call list"
where
  "select_handler self update state =
     (if state = PyNone \<or> allow_reentry self then
        (case scan Entry_point_check (entry_points self) update of
           (Some e, calls) \<Rightarrow>
             (case state_handlers self update state (Some e) of
                (sel, calls') \<Rightarrow> (sel, calls @ calls'))
         | (None, calls) \<Rightarrow>
             (if state = PyNone then (Return_False, calls)
              else (case state_handlers self update state None of
                      (sel, calls') \<Rightarrow> (sel, calls @ calls'))))
      else state_handlers self update state None)"

text \<open>
  The whole method: the result (\<open>Inl\<close> an exception that leaves the method), the instance
  afterwards, and the calls made.
\<close>

definition check_update ::
  "ConversationHandler \<Rightarrow> event \<Rightarrow> (error + bool) \<times> ConversationHandler \<times> call list"
where
  "check_update self ev =
     (case ev of
        Not_Update \<Rightarrow> (Inr False, self, [])
      | Is_Update update \<Rightarrow>
     (case user_and_chat update of
        None \<Rightarrow> (Inr False, self, [])
      | Some (user, chat) \<Rightarrow>
     (case make_key chat user of
        Inl e \<Rightarrow> (Inl e, self, [])
      | Inr k \<Rightarrow>
     (case get_state self k of
        (Inl e, calls) \<Rightarrow> (Inl e, self, calls)
      | (Inr state, calls) \<Rightarrow>
     (case select_handler self update state of
        (Return_False, calls') \<Rightarrow> (Inr False, self, calls @ calls')
      | (Reached handler, calls') \<Rightarrow>
          (Inr True,
           self\<lparr>current_conversation := Some k, current_handler := handler\<rparr>,
           calls @ calls'))))))"

subsection \<open>handle_update\<close>

text \<open>
  Lines 159 to 166. \<open>self.current_handler.handle_update\<close> on \<open>None\<close> raises AttributeError;
  \<open>del\<close> of a key the dictionary does not have raises KeyError.
\<close>

definition handle_update ::
  "ConversationHandler \<Rightarrow> event \<Rightarrow> (error + unit) \<times> ConversationHandler"
where
  "handle_update self ev =
     (case current_handler self of
        None \<Rightarrow> (Inl AttributeError, self)
      | Some h \<Rightarrow>
     (case handler_handle_update h ev of
        Inl e \<Rightarrow> (Inl e, self)
      | Inr new_state \<Rightarrow>
          (if new_state = END then
             (case conversations self (current_conversation self) of
                None \<Rightarrow> (Inl KeyError, self)
              | Some old \<Rightarrow>
                  (Inr (),
                   self\<lparr>conversations :=
                          (conversations self)(current_conversation self := None)\<rparr>))
           else if new_state \<noteq> PyNone then
             (Inr (),
              self\<lparr>conversations :=
                     (conversations self)(current_conversation self \<mapsto> new_state)\<rparr>)
           else (Inr (), self))))"

subsection \<open>Reading the outcome of a check\<close>

abbreviation returned :: "'r \<times> 's \<times> 'c \<Rightarrow> 'r" where
  "returned out \<equiv> fst out"

abbreviation after_check :: "ConversationHandler \<Rightarrow> event \<Rightarrow> ConversationHandler" where
  "after_check self ev \<equiv> fst (snd (check_update self ev))"

abbreviation calls_of_check :: "ConversationHandler \<Rightarrow> event \<Rightarrow> call list" where
  "calls_of_check self ev \<equiv> snd (snd (check_update self ev))"

subsection \<open>Example handlers, updates and instances\<close>

text \<open>
  Handlers in the manner of the class's documentation. \<open>start_handler\<close> is an entry point
  for the command \<open>/start\<close> and opens the conversation; \<open>name_handler\<close> takes a text that
  is not a command; \<open>cancel_handler\<close> is a fallback for \<open>/cancel\<close> and ends the
  conversation; \<open>stop_handler\<close> is an entry point whose callback ends the conversation at
  once; \<open>ack_handler\<close> takes any message and returns nothing.
\<close>

definition message_text :: "Update \<Rightarrow> string option" where
  "message_text u = (case message u of None \<Rightarrow> None | Some m \<Rightarrow> Some (msg_text m))"

definition start_handler :: Handler where
  "start_handler =
     \<lparr>handler_check_update = (\<lambda>u. message_text u = Some ''/start''),
      handler_handle_update = (\<lambda>ev. Inr (PyStr ''AWAITING_NAME''))\<rparr>"

definition name_handler :: Handler where
  "name_handler =
     \<lparr>handler_check_update =
        (\<lambda>u. case message_text u of Some (c # cs) \<Rightarrow> c \<noteq> CHR ''/'' | _ \<Rightarrow> False),
      handler_handle_update = (\<lambda>ev. Inr (PyStr ''AWAITING_AGE''))\<rparr>"

definition cancel_handler :: Handler where
  "cancel_handler =
     \<lparr>handler_check_update = (\<lambda>u. message_text u = Some ''/cancel''),
      handler_handle_update = (\<lambda>ev. Inr END)\<rparr>"

definition stop_handler :: Handler where
  "stop_handler =
     \<lparr>handler_check_update = (\<lambda>u. message_text u = Some ''/start''),
      handler_handle_update = (\<lambda>ev. Inr END)\<rparr>"

definition ack_handler :: Handler where
  "ack_handler =
     \<lparr>handler_check_update = (\<lambda>u. message_text u \<noteq> None),
      handler_handle_update = (\<lambda>ev. Inr PyNone)\<rparr>"

text \<open>
  Updates: a message with the given text from user 1 in chat 10, an inline query of user 2,
  and a message in chat 10 that has no sender.
\<close>

definition no_update :: Update where
  "no_update =
     \<lparr>message = None, edited_message = None, inline_query = None,
      chosen_inline_result = None, callback_query = None\<rparr>"

definition text_update :: "string \<Rightarrow> Update" where
  "text_update txt =
     no_update\<lparr>message := Some (Message (Some (User 1)) (Some (Chat 10)) txt)\<rparr>"

definition query_update :: Update where
  "query_update = no_update\<lparr>inline_query := Some (InlineQuery (Some (User 2)))\<rparr>"

definition channel_update :: Update where
  "channel_update = no_update\<lparr>message := Some (Message None (Some (Chat 10)) ''/start'')\<rparr>"

text \<open>
  A conversation in the state \<open>AWAITING_NAME\<close> for user 1 in chat 10, with the given
  handlers registered for that state, and reentry allowed or not.
\<close>

definition awaiting_name :: "Handler list \<Rightarrow> bool \<Rightarrow> ConversationHandler" where
  "awaiting_name hs reentry =
     (init [start_handler] [PyStr ''AWAITING_NAME'' \<mapsto> hs] [cancel_handler] reentry)
       \<lparr>conversations := [Some (Some 10, 1) \<mapsto> PyStr ''AWAITING_NAME'']\<rparr>"

text \<open>The same conversation with a promise stored as its state, and an instance on which no
  conversation has started.\<close>

definition awaiting_promise :: "error + pyval \<Rightarrow> ConversationHandler" where
  "awaiting_promise r =
     (awaiting_name [name_handler] False)
       \<lparr>conversations := [Some (Some 10, 1) \<mapsto> Promise r]\<rparr>"

definition not_started :: ConversationHandler where
  "not_started =
     init [start_handler] [PyStr ''AWAITING_NAME'' \<mapsto> [name_handler]] [cancel_handler] False"

section \<open>Properties\<close>

subsection \<open>The loops and the promise\<close>

text \<open>A scan finds the first handler, in the order of the list, that accepts the update, and
  calls the handlers before it and that one, in order.\<close>

lemma scan_found: "fst (scan site hs u) = find (\<lambda>h. handler_check_update h u) hs"
  by (induction hs) (auto split: prod.splits)

lemma scan_calls:
  "snd (scan site hs u) =
     map site (takeWhile (\<lambda>h. \<not> handler_check_update h u) hs @
               (case find (\<lambda>h. handler_check_update h u) hs of None \<Rightarrow> [] | Some h \<Rightarrow> [h]))"
  by (induction hs) (auto split: prod.splits)

lemma scan_eq:
  "scan site hs u =
     (find (\<lambda>h. handler_check_update h u) hs,
      map site (takeWhile (\<lambda>h. \<not> handler_check_update h u) hs @
               (case find (\<lambda>h. handler_check_update h u) hs of None \<Rightarrow> [] | Some h \<Rightarrow> [h])))"
  using scan_found [of site hs u] scan_calls [of site hs u] by (cases "scan site hs u") simp

lemma scan_calls_site: "c \<in> set (snd (scan site hs u)) \<Longrightarrow> \<exists>h \<in> set hs. c = site h"
  by (induction hs) (auto split: prod.splits if_splits)

lemma promise_not_its_result: "Promise (Inr v) \<noteq> v"
proof (induction v)
  case (Promise x)
  show ?case
  proof
    assume "Promise (Inr (Promise x)) = Promise x"
    then have eq: "x = Inr (Promise x)" by simp
    then have "Promise x \<in> Basic_BNFs.setr x" by (rule Basic_BNFs.setr.intros)
    then have "Promise (Inr (Promise x)) \<noteq> Promise x" by (rule Promise.IH)
    with eq show False by simp
  qed
qed simp_all

subsection \<open>What a check leaves alone\<close>

lemma check_update_failed_same:
  "fst (check_update self ev) \<noteq> Inr True \<Longrightarrow> fst (snd (check_update self ev)) = self"
  by (auto simp add: check_update_def split: event.splits option.splits prod.splits sum.splits selection.splits)

subsection \<open>The selection, case by case\<close>

lemma find_none_takeWhile: "find P xs = None \<Longrightarrow> takeWhile (\<lambda>x. \<not> P x) xs = xs"
  by (induction xs) (auto split: if_splits)

lemma find_none_iff_all: "(find P xs = None) = (\<forall>x\<in>set xs. \<not> P x)"
  by (induction xs) auto

lemma find_some_ex: "\<exists>x\<in>set xs. P x \<Longrightarrow> \<exists>y. find P xs = Some y"
  by (induction xs) auto

lemma state_handlers_found [simp]:
  "state_handlers self u S (Some e) = (Reached (Some e), [])"
  by (simp add: state_handlers_def)

lemma state_handlers_candidate:
  assumes "S \<noteq> PyNone"
    and "find (\<lambda>h. handler_check_update h u) (registered self S) = Some c"
  shows "state_handlers self u S None =
     (Reached (Some c),
      States_get S #
      map Candidate_check (takeWhile (\<lambda>h. \<not> handler_check_update h u) (registered self S)) @
      [Candidate_check c])"
  using assms by (simp add: state_handlers_def scan_eq)

lemma state_handlers_fallback:
  assumes "S \<noteq> PyNone"
    and "find (\<lambda>h. handler_check_update h u) (registered self S) = None"
    and "find (\<lambda>h. handler_check_update h u) (fallbacks self) = Some f"
  shows "state_handlers self u S None =
     (Reached (Some f),
      States_get S # map Candidate_check (registered self S) @
      map Fallback_check (takeWhile (\<lambda>h. \<not> handler_check_update h u) (fallbacks self)) @
      [Fallback_check f])"
  using assms by (simp add: state_handlers_def scan_eq find_none_takeWhile)

lemma state_handlers_nothing:
  assumes "S \<noteq> PyNone"
    and "find (\<lambda>h. handler_check_update h u) (registered self S) = None"
    and "find (\<lambda>h. handler_check_update h u) (fallbacks self) = None"
  shows "state_handlers self u S None =
     (Return_False,
      States_get S # map Candidate_check (registered self S) @
      map Fallback_check (fallbacks self))"
  using assms by (simp add: state_handlers_def scan_eq find_none_takeWhile)

lemma select_handler_entry:
  assumes "S = PyNone \<or> allow_reentry self"
    and "find (\<lambda>h. handler_check_update h u) (entry_points self) = Some e"
  shows "select_handler self u S =
     (Reached (Some e),
      map Entry_point_check (takeWhile (\<lambda>h. \<not> handler_check_update h u) (entry_points self)) @
      [Entry_point_check e])"
  using assms by (auto simp add: select_handler_def scan_eq)

lemma select_handler_no_state:
  assumes "find (\<lambda>h. handler_check_update h u) (entry_points self) = None"
  shows "select_handler self u PyNone = (Return_False, map Entry_point_check (entry_points self))"
  using assms by (simp add: select_handler_def scan_eq find_none_takeWhile)

lemma select_handler_fallthrough:
  assumes "S \<noteq> PyNone" and "allow_reentry self"
    and "find (\<lambda>h. handler_check_update h u) (entry_points self) = None"
  shows "select_handler self u S =
     (fst (state_handlers self u S None),
      map Entry_point_check (entry_points self) @ snd (state_handlers self u S None))"
  using assms by (simp add: select_handler_def scan_eq find_none_takeWhile split: prod.splits)

lemma select_handler_no_reentry:
  assumes "S \<noteq> PyNone" and "\<not> allow_reentry self"
  shows "select_handler self u S = state_handlers self u S None"
  using assms by (simp add: select_handler_def)

lemma check_update_select:
  assumes "user_and_chat u = Some (user, chat)" and "make_key chat user = Inr k"
    and "fst (get_state self k) = Inr S"
  shows "check_update self (Is_Update u) =
     (case fst (select_handler self u S) of
        Return_False \<Rightarrow>
          (Inr False, self, snd (get_state self k) @ snd (select_handler self u S))
      | Reached h \<Rightarrow>
          (Inr True, self\<lparr>current_conversation := Some k, current_handler := h\<rparr>,
           snd (get_state self k) @ snd (select_handler self u S)))"
  using assms
  by (cases "get_state self k"; cases "select_handler self u S")
     (auto simp add: check_update_def split: selection.splits)

lemma get_state_calls:
  "c \<in> set (snd (get_state self k)) \<Longrightarrow>
     c = Debug_waiting \<or> (\<exists>r. c = Promise_result (Promise r)) \<or>
     (\<exists>s. c = Debug_selecting k s \<and> fst (get_state self k) = Inr s)"
  by (auto simp add: get_state_def Let_def split: option.splits pyval.splits sum.splits)

lemma get_state_absent:
  "conversations self (Some k) = None \<Longrightarrow> get_state self k = (Inr PyNone, [Debug_selecting k PyNone])"
  by (simp add: get_state_def)

lemma get_state_promise:
  "conversations self (Some k) = Some (Promise r) \<Longrightarrow>
   get_state self k =
     (case r of
        Inl e \<Rightarrow> (Inl e, [Debug_waiting, Promise_result (Promise r)])
      | Inr v \<Rightarrow> (Inr v, [Debug_waiting, Promise_result (Promise r), Debug_selecting k v]))"
  by (simp add: get_state_def split: sum.splits)

lemma state_handlers_calls:
  "c \<in> set (snd (state_handlers self u S h)) \<Longrightarrow>
     c = States_get S \<or> (\<exists>x. c = Candidate_check x) \<or> (\<exists>x. c = Fallback_check x)"
  by (auto simp add: state_handlers_def scan_eq split: if_splits option.splits)


lemma takeWhile_subset: "x \<in> set (takeWhile P xs) \<Longrightarrow> x \<in> set xs"
  by (rule set_takeWhileD [THEN conjunct1])

lemma find_some_mem: "find P xs = Some x \<Longrightarrow> x \<in> set xs \<and> P x"
  by (induction xs) (auto split: if_splits)

lemma select_handler_calls:
  assumes "c \<in> set (snd (select_handler self u S))"
  shows "(\<exists>e. c = Entry_point_check e) \<or> c = States_get S \<or>
     (\<exists>x. c = Candidate_check x) \<or> (\<exists>x. c = Fallback_check x)"
proof (cases "S = PyNone \<or> allow_reentry self")
  case False
  then have "select_handler self u S = state_handlers self u S None"
    by (simp add: select_handler_def)
  with assms show ?thesis by (auto dest: state_handlers_calls)
next
  case True
  show ?thesis
  proof (cases "find (\<lambda>h. handler_check_update h u) (entry_points self)")
    case (Some e)
    with True assms show ?thesis
      by (auto simp add: select_handler_entry)
  next
    case None
    show ?thesis
    proof (cases "S = PyNone")
      case True
      with None assms show ?thesis by (auto simp add: select_handler_no_state)
    next
      case False
      with True have "allow_reentry self" by simp
      from select_handler_fallthrough [OF False this None] assms show ?thesis
        by (auto dest: state_handlers_calls)
    qed
  qed
qed

subsection \<open>The examples\<close>

lemma text_update_sender:
  "user_and_chat (text_update txt) = Some (Some (User 1), Some (Chat 10))"
  by (simp add: user_and_chat_def text_update_def no_update_def)

lemma text_update_key: "make_key (Some (Chat 10)) (Some (User 1)) = Inr (Some 10, 1)"
  by (simp add: make_key_def)

lemma awaiting_name_state:
  "fst (get_state (awaiting_name hs reentry) (Some 10, 1)) = Inr (PyStr ''AWAITING_NAME'')"
  by (simp add: get_state_def Let_def awaiting_name_def init_def)

subsection \<open>Committing\<close>

text \<open>
  C1, as the code has it. The class has no InvalidOperation condition and keeps no record of
  the event a selection was made for. On an instance whose \<open>current_handler\<close> is \<open>None\<close>, as it
  is after construction, \<open>handle_update\<close> raises AttributeError and leaves the instance,
  the conversations included, as it was. A check that does not return \<open>True\<close> leaves the
  instance as it was, so the selection of an earlier successful check stays in place.
\<close>

theorem handle_update_without_selection:
  "handle_update (init eps sts fbs reentry) ev = (Inl AttributeError, init eps sts fbs reentry) \<and>
   (current_handler self = None \<longrightarrow> handle_update self ev = (Inl AttributeError, self)) \<and>
   (returned (check_update self ev') \<noteq> Inr True \<longrightarrow> after_check self ev' = self)"
  by (simp add: handle_update_def init_def check_update_failed_same)

theorem handle_update_without_selection_witness:
  "current_handler (init [start_handler] Map.empty [] False) = None \<and>
   returned (check_update (init [start_handler] Map.empty [] False) (Is_Update query_update))
     \<noteq> Inr True \<and>
   handle_update
     (after_check (init [start_handler] Map.empty [] False) (Is_Update query_update))
     (Is_Update query_update) =
   (Inl AttributeError, init [start_handler] Map.empty [] False)"
proof -
  have c: "current_handler (init [start_handler] Map.empty [] False) = None"
    by (simp add: init_def)
  have r: "returned (check_update (init [start_handler] Map.empty [] False)
             (Is_Update query_update)) \<noteq> Inr True"
    by (simp add: init_def check_update_def user_and_chat_def make_key_def get_state_def
        select_handler_def start_handler_def query_update_def no_update_def message_text_def)
  show ?thesis
    using c r
      handle_update_without_selection [of "[start_handler]" Map.empty "[]" False
        "Is_Update query_update" "init [start_handler] Map.empty [] False"
        "Is_Update query_update"]
    by simp
qed

text \<open>
  C1, as the claim states it, fails: after a successful check for a message of user 1 in chat
  10, the check for an inline query of user 2 returns \<open>False\<close>; \<open>handle_update\<close> for that
  query then raises nothing, runs the handler selected for the message and stores its state
  under the key of user 1.
\<close>

theorem handle_update_stale_selection:
  "returned (check_update (init [start_handler] Map.empty [] False) (Is_Update (text_update ''/start''))) =
     Inr True \<and>
   returned
     (check_update
        (after_check (init [start_handler] Map.empty [] False) (Is_Update (text_update ''/start'')))
        (Is_Update query_update)) = Inr False \<and>
   handle_update
     (after_check
        (after_check (init [start_handler] Map.empty [] False) (Is_Update (text_update ''/start'')))
        (Is_Update query_update))
     (Is_Update query_update) =
   (Inr (),
    (init [start_handler] Map.empty [] False)
      \<lparr>conversations := [Some (Some 10, 1) \<mapsto> PyStr ''AWAITING_NAME''],
       current_conversation := Some (Some 10, 1),
       current_handler := Some start_handler\<rparr>)"
  by (simp add: init_def check_update_def user_and_chat_def make_key_def get_state_def
      select_handler_def state_handlers_def handle_update_def END_def
      start_handler_def text_update_def message_text_def query_update_def no_update_def)

text \<open>
  C2 at an input where the code departs from it: on a new instance the entry point accepts a
  message and its callback returns \<open>END\<close>. The identity has no entry in the conversations,
  and \<open>del\<close> raises KeyError instead of doing nothing.
\<close>

theorem handle_update_END_absent_key:
  "returned (check_update (init [stop_handler] Map.empty [] False) (Is_Update (text_update ''/start''))) =
     Inr True \<and>
   conversations
     (after_check (init [stop_handler] Map.empty [] False) (Is_Update (text_update ''/start'')))
     (Some (Some 10, 1)) = None \<and>
   handle_update
     (after_check (init [stop_handler] Map.empty [] False) (Is_Update (text_update ''/start'')))
     (Is_Update (text_update ''/start'')) =
   (Inl KeyError,
    (init [stop_handler] Map.empty [] False)
      \<lparr>current_conversation := Some (Some 10, 1), current_handler := Some stop_handler\<rparr>)"
  by (simp add: init_def check_update_def user_and_chat_def make_key_def get_state_def
      select_handler_def state_handlers_def handle_update_def END_def
      stop_handler_def text_update_def message_text_def no_update_def)

text \<open>
  C3 at an input where the code departs from it: an update that carries a message with a chat
  and no sender. Line 112 reads \<open>user.id\<close> of \<open>None\<close>, and the check raises AttributeError
  instead of returning \<open>False\<close>.
\<close>

theorem check_update_no_sender:
  "check_update (init [start_handler] Map.empty [] False) (Is_Update channel_update) =
     (Inl AttributeError, init [start_handler] Map.empty [] False, [])"
  by (simp add: init_def check_update_def user_and_chat_def make_key_def
      channel_update_def no_update_def message_text_def)

text \<open>
  C9: when the selected handler returns \<open>None\<close>, \<open>handle_update\<close> returns normally and the
  instance afterwards is the instance before: the conversations, and with them the state
  stored for every identity, are unchanged.
\<close>

theorem handle_update_no_change:
  "current_handler self = Some h \<Longrightarrow> handler_handle_update h ev = Inr PyNone \<Longrightarrow>
   handle_update self ev = (Inr (), self)"
  by (simp add: handle_update_def END_def)

theorem handle_update_no_change_witness:
  "current_handler (after_check (awaiting_name [ack_handler] False) (Is_Update (text_update ''/start''))) =
     Some ack_handler \<and>
   handler_handle_update ack_handler (Is_Update (text_update ''/start'')) = Inr PyNone \<and>
   handle_update (after_check (awaiting_name [ack_handler] False) (Is_Update (text_update ''/start'')))
     (Is_Update (text_update ''/start'')) =
   (Inr (), after_check (awaiting_name [ack_handler] False) (Is_Update (text_update ''/start''))) \<and>
   conversations (after_check (awaiting_name [ack_handler] False) (Is_Update (text_update ''/start'')))
     (Some (Some 10, 1)) = Some (PyStr ''AWAITING_NAME'')"
proof -
  have h: "handler_handle_update ack_handler (Is_Update (text_update ''/start'')) = Inr PyNone"
    by (simp add: ack_handler_def)
  have c: "current_handler
      (after_check (awaiting_name [ack_handler] False) (Is_Update (text_update ''/start''))) =
     Some ack_handler"
    by (simp add: awaiting_name_def init_def check_update_def user_and_chat_def make_key_def
        get_state_def Let_def select_handler_def state_handlers_def registered_def
        ack_handler_def text_update_def message_text_def no_update_def)
  have s: "conversations
      (after_check (awaiting_name [ack_handler] False) (Is_Update (text_update ''/start'')))
      (Some (Some 10, 1)) = Some (PyStr ''AWAITING_NAME'')"
    by (simp add: awaiting_name_def init_def check_update_def user_and_chat_def make_key_def
        get_state_def Let_def select_handler_def state_handlers_def registered_def
        ack_handler_def text_update_def message_text_def no_update_def)
  show ?thesis
    using c h s handle_update_no_change [OF c h] by simp
qed

text \<open>
  C10: \<open>check_update\<close> never changes the conversations, whatever it is given and whether it
  returns or raises; a promise it has resolved is still what is stored. It changes no other
  attribute set by the constructor either: only \<open>current_conversation\<close> and
  \<open>current_handler\<close> can differ afterwards.
\<close>

theorem check_update_keeps_conversations:
  "conversations (after_check self ev) = conversations self \<and>
   entry_points (after_check self ev) = entry_points self \<and>
   states (after_check self ev) = states self \<and>
   fallbacks (after_check self ev) = fallbacks self \<and>
   allow_reentry (after_check self ev) = allow_reentry self"
  by (simp add: check_update_def
      split: event.splits option.splits prod.splits sum.splits selection.splits)

subsection \<open>Selecting\<close>

text \<open>
  C4: when the value stored for the identity of the update is a promise, the state that the
  selection works with is the value the promise resolves to. The check returns what the
  selection returns on that value, the calls it makes after \<open>result()\<close> are those of the
  selection on that value, every state it names in the debug message or looks up in the state
  table is that value, and the promise itself is never named or looked up as the state. When
  the promise fails, the failure leaves the check before any selection.
\<close>

theorem check_update_resolves_promise:
  assumes "user_and_chat update = Some (user, chat)"
    and "make_key chat user = Inr k"
    and "conversations self (Some k) = Some (Promise r)"
  shows "(case r of
            Inl e \<Rightarrow>
              check_update self (Is_Update update) =
                (Inl e, self, [Debug_waiting, Promise_result (Promise r)])
          | Inr v \<Rightarrow>
              returned (check_update self (Is_Update update)) =
                Inr (fst (select_handler self update v) \<noteq> Return_False) \<and>
              calls_of_check self (Is_Update update) =
                [Debug_waiting, Promise_result (Promise r), Debug_selecting k v] @
                snd (select_handler self update v) \<and>
              (\<forall>s. States_get s \<in> set (calls_of_check self (Is_Update update)) \<longrightarrow> s = v) \<and>
              (\<forall>k' s. Debug_selecting k' s \<in> set (calls_of_check self (Is_Update update)) \<longrightarrow>
                 s = v) \<and>
              States_get (Promise r) \<notin> set (calls_of_check self (Is_Update update)) \<and>
              Debug_selecting k (Promise r) \<notin> set (calls_of_check self (Is_Update update)))"
proof (cases r)
  case (Inl e)
  then have "get_state self k = (Inl e, [Debug_waiting, Promise_result (Promise r)])"
    using get_state_promise [OF assms(3)] by simp
  with Inl assms(1,2) show ?thesis
    by (simp add: check_update_def)
next
  case (Inr v)
  let ?calls = "calls_of_check self (Is_Update update)"
  let ?sel = "select_handler self update v"
  have st: "get_state self k =
      (Inr v, [Debug_waiting, Promise_result (Promise r), Debug_selecting k v])"
    using Inr get_state_promise [OF assms(3)] by simp
  then have fs: "fst (get_state self k) = Inr v" by simp
  note cu = check_update_select [OF assms(1) assms(2) fs]
  have calls: "?calls =
      [Debug_waiting, Promise_result (Promise r), Debug_selecting k v] @ snd ?sel"
    using cu st by (cases "fst ?sel") simp_all
  have ret: "returned (check_update self (Is_Update update)) = Inr (fst ?sel \<noteq> Return_False)"
    using cu by (cases "fst ?sel") simp_all
  have neq: "Promise r \<noteq> v"
    using Inr promise_not_its_result [of v] by simp
  have used: "s = v" if "States_get s \<in> set ?calls" for s
  proof -
    from that have "States_get s \<in> set (snd ?sel)"
      unfolding calls by simp
    from select_handler_calls [OF this] show ?thesis by simp
  qed
  have named: "s = v" if "Debug_selecting k' s \<in> set ?calls" for k' s
  proof -
    from that have "Debug_selecting k' s = Debug_selecting k v \<or>
        Debug_selecting k' s \<in> set (snd ?sel)"
      unfolding calls by simp
    then show ?thesis
    proof
      assume "Debug_selecting k' s = Debug_selecting k v"
      then show ?thesis by simp
    next
      assume "Debug_selecting k' s \<in> set (snd ?sel)"
      from select_handler_calls [OF this] show ?thesis by simp
    qed
  qed
  have not_get: "States_get (Promise r) \<notin> set ?calls"
    using used [of "Promise r"] neq by blast
  have not_named: "Debug_selecting k (Promise r) \<notin> set ?calls"
    using named [of k "Promise r"] neq by blast
  have "returned (check_update self (Is_Update update)) = Inr (fst ?sel \<noteq> Return_False) \<and>
        ?calls = [Debug_waiting, Promise_result (Promise r), Debug_selecting k v] @ snd ?sel \<and>
        (\<forall>s. States_get s \<in> set ?calls \<longrightarrow> s = v) \<and>
        (\<forall>k' s. Debug_selecting k' s \<in> set ?calls \<longrightarrow> s = v) \<and>
        States_get (Promise r) \<notin> set ?calls \<and>
        Debug_selecting k (Promise r) \<notin> set ?calls"
    using ret calls used named not_get not_named by (intro conjI allI impI)
  then show ?thesis
    unfolding Inr sum.case .
qed

theorem check_update_resolves_promise_witness:
  "user_and_chat (text_update ''Alice'') = Some (Some (User 1), Some (Chat 10)) \<and>
   make_key (Some (Chat 10)) (Some (User 1)) = Inr (Some 10, 1) \<and>
   conversations (awaiting_promise (Inr (PyStr ''AWAITING_NAME''))) (Some (Some 10, 1)) =
     Some (Promise (Inr (PyStr ''AWAITING_NAME''))) \<and>
   conversations (awaiting_promise (Inl (Exception ''failed''))) (Some (Some 10, 1)) =
     Some (Promise (Inl (Exception ''failed''))) \<and>
   returned (check_update (awaiting_promise (Inr (PyStr ''AWAITING_NAME'')))
     (Is_Update (text_update ''Alice''))) = Inr True \<and>
   calls_of_check (awaiting_promise (Inr (PyStr ''AWAITING_NAME'')))
     (Is_Update (text_update ''Alice'')) =
     [Debug_waiting, Promise_result (Promise (Inr (PyStr ''AWAITING_NAME''))),
      Debug_selecting (Some 10, 1) (PyStr ''AWAITING_NAME''),
      States_get (PyStr ''AWAITING_NAME''), Candidate_check name_handler] \<and>
   check_update (awaiting_promise (Inl (Exception ''failed'')))
     (Is_Update (text_update ''Alice'')) =
     (Inl (Exception ''failed''), awaiting_promise (Inl (Exception ''failed'')),
      [Debug_waiting, Promise_result (Promise (Inl (Exception ''failed'')))])"
proof -
  have h3: "conversations (awaiting_promise r) (Some (Some 10, 1)) = Some (Promise r)" for r
    by (simp add: awaiting_promise_def)
  have sel: "select_handler (awaiting_promise (Inr (PyStr ''AWAITING_NAME'')))
      (text_update ''Alice'') (PyStr ''AWAITING_NAME'') =
      (Reached (Some name_handler),
       [States_get (PyStr ''AWAITING_NAME''), Candidate_check name_handler])"
    by (simp add: awaiting_promise_def awaiting_name_def init_def select_handler_def
        state_handlers_def registered_def name_handler_def text_update_def
        no_update_def message_text_def)
  have ok: "returned (check_update (awaiting_promise (Inr (PyStr ''AWAITING_NAME'')))
       (Is_Update (text_update ''Alice''))) = Inr True \<and>
     calls_of_check (awaiting_promise (Inr (PyStr ''AWAITING_NAME'')))
       (Is_Update (text_update ''Alice'')) =
       [Debug_waiting, Promise_result (Promise (Inr (PyStr ''AWAITING_NAME''))),
        Debug_selecting (Some 10, 1) (PyStr ''AWAITING_NAME''),
        States_get (PyStr ''AWAITING_NAME''), Candidate_check name_handler]"
    using check_update_resolves_promise
      [OF text_update_sender [of "''Alice''"] text_update_key
        h3 [of "Inr (PyStr ''AWAITING_NAME'')"]]
      sel
    by simp
  have failed: "check_update (awaiting_promise (Inl (Exception ''failed'')))
       (Is_Update (text_update ''Alice'')) =
     (Inl (Exception ''failed''), awaiting_promise (Inl (Exception ''failed'')),
      [Debug_waiting, Promise_result (Promise (Inl (Exception ''failed'')))])"
    using check_update_resolves_promise
      [OF text_update_sender [of "''Alice''"] text_update_key
        h3 [of "Inl (Exception ''failed'')"]]
    by simp
  show ?thesis
    using ok failed h3 text_update_sender text_update_key by simp
qed

text \<open>
  C5: with reentry allowed and an active state \<open>S\<close> for the identity, when some entry point
  accepts the update the check returns \<open>True\<close> with the first accepting entry point, in the
  order of \<open>entry_points\<close>, as the selected handler. The state table is not looked up and no
  handler of the state and no fallback is asked, so this holds whether or not a handler
  registered for \<open>S\<close> would have accepted the update.
\<close>

theorem check_update_reentry_priority:
  assumes "user_and_chat update = Some (user, chat)"
    and "make_key chat user = Inr k"
    and "fst (get_state self k) = Inr S"
    and "S \<noteq> PyNone"
    and "allow_reentry self"
    and "\<exists>e \<in> set (entry_points self). handler_check_update e update"
  shows "returned (check_update self (Is_Update update)) = Inr True \<and>
         current_handler (after_check self (Is_Update update)) =
           find (\<lambda>h. handler_check_update h update) (entry_points self) \<and>
         current_conversation (after_check self (Is_Update update)) = Some k \<and>
         (\<forall>h. Candidate_check h \<notin> set (calls_of_check self (Is_Update update)) \<and>
              Fallback_check h \<notin> set (calls_of_check self (Is_Update update))) \<and>
         (\<forall>s. States_get s \<notin> set (calls_of_check self (Is_Update update)))"
proof -
  from assms(6) obtain e
    where e: "find (\<lambda>h. handler_check_update h update) (entry_points self) = Some e"
    using find_some_ex [of "entry_points self" "\<lambda>h. handler_check_update h update"] by blast
  have sel: "select_handler self update S =
        (Reached (Some e),
         map Entry_point_check
           (takeWhile (\<lambda>h. \<not> handler_check_update h update) (entry_points self)) @
         [Entry_point_check e])"
    using assms(5) e by (simp add: select_handler_entry)
  have pre: "\<And>c. c \<in> set (snd (get_state self k)) \<Longrightarrow>
      (\<forall>h. c \<noteq> Candidate_check h \<and> c \<noteq> Fallback_check h) \<and> (\<forall>s. c \<noteq> States_get s)"
    by (auto dest: get_state_calls)
  show ?thesis
    using check_update_select [OF assms(1) assms(2) assms(3)] sel e pre
    by auto
qed

theorem check_update_reentry_priority_witness:
  "user_and_chat (text_update ''/start'') = Some (Some (User 1), Some (Chat 10)) \<and>
   make_key (Some (Chat 10)) (Some (User 1)) = Inr (Some 10, 1) \<and>
   fst (get_state (awaiting_name [ack_handler] True) (Some 10, 1)) =
     Inr (PyStr ''AWAITING_NAME'') \<and>
   PyStr ''AWAITING_NAME'' \<noteq> PyNone \<and>
   allow_reentry (awaiting_name [ack_handler] True) \<and>
   entry_points (awaiting_name [ack_handler] True) = [start_handler] \<and>
   handler_check_update start_handler (text_update ''/start'') \<and>
   find (\<lambda>h. handler_check_update h (text_update ''/start''))
     (registered (awaiting_name [ack_handler] True) (PyStr ''AWAITING_NAME'')) =
     Some ack_handler \<and>
   returned (check_update (awaiting_name [ack_handler] True)
     (Is_Update (text_update ''/start''))) = Inr True \<and>
   current_handler (after_check (awaiting_name [ack_handler] True)
     (Is_Update (text_update ''/start''))) = Some start_handler"
proof -
  have h4: "PyStr ''AWAITING_NAME'' \<noteq> PyNone" by simp
  have h5: "allow_reentry (awaiting_name [ack_handler] True)"
    by (simp add: awaiting_name_def init_def)
  have h6: "\<exists>e \<in> set (entry_points (awaiting_name [ack_handler] True)).
      handler_check_update e (text_update ''/start'')"
    by (simp add: awaiting_name_def init_def start_handler_def text_update_def no_update_def
        message_text_def)
  have st: "find (\<lambda>h. handler_check_update h (text_update ''/start''))
     (registered (awaiting_name [ack_handler] True) (PyStr ''AWAITING_NAME'')) =
     Some ack_handler"
    by (simp add: awaiting_name_def init_def registered_def ack_handler_def text_update_def
        no_update_def message_text_def)
  have ep: "find (\<lambda>h. handler_check_update h (text_update ''/start''))
     (entry_points (awaiting_name [ack_handler] True)) = Some start_handler"
    by (simp add: awaiting_name_def init_def start_handler_def text_update_def
        no_update_def message_text_def)
  have eps: "entry_points (awaiting_name [ack_handler] True) = [start_handler] \<and>
      handler_check_update start_handler (text_update ''/start'')"
    by (simp add: awaiting_name_def init_def start_handler_def text_update_def
        no_update_def message_text_def)
  show ?thesis
    using check_update_reentry_priority
      [OF text_update_sender text_update_key awaiting_name_state h4 h5 h6]
      text_update_sender [of "''/start''"] text_update_key
      awaiting_name_state [of "[ack_handler]" True] h5 eps st ep
    by simp
qed

text \<open>
  C6: with reentry allowed, an active state \<open>S\<close> and no entry point that accepts the update,
  the check goes on to the state table: after asking every entry point it looks \<open>S\<close> up, asks
  the handlers registered for \<open>S\<close> in order and selects the first that accepts.
\<close>

theorem check_update_reentry_fallthrough:
  assumes "user_and_chat update = Some (user, chat)"
    and "make_key chat user = Inr k"
    and "fst (get_state self k) = Inr S"
    and "S \<noteq> PyNone"
    and "allow_reentry self"
    and "\<forall>e \<in> set (entry_points self). \<not> handler_check_update e update"
  shows "States_get S \<in> set (calls_of_check self (Is_Update update)) \<and>
         (\<forall>c. find (\<lambda>h. handler_check_update h update) (registered self S) = Some c \<longrightarrow>
            returned (check_update self (Is_Update update)) = Inr True \<and>
            current_handler (after_check self (Is_Update update)) = Some c \<and>
            current_conversation (after_check self (Is_Update update)) = Some k \<and>
            calls_of_check self (Is_Update update) =
              snd (get_state self k) @ map Entry_point_check (entry_points self) @
              States_get S #
              map Candidate_check
                (takeWhile (\<lambda>h. \<not> handler_check_update h update) (registered self S)) @
              [Candidate_check c])"
proof -
  have none: "find (\<lambda>h. handler_check_update h update) (entry_points self) = None"
    using assms(6) by (simp add: find_none_iff_all)
  note sel = select_handler_fallthrough [OF assms(4) assms(5) none]
  note cu = check_update_select [OF assms(1) assms(2) assms(3)]
  have get: "States_get S \<in> set (snd (state_handlers self update S None))"
    using assms(4) by (simp add: state_handlers_def scan_eq split: option.splits)
  have first: "States_get S \<in> set (calls_of_check self (Is_Update update))"
    using cu sel get by (simp split: selection.splits)
  have second: "returned (check_update self (Is_Update update)) = Inr True \<and>
            current_handler (after_check self (Is_Update update)) = Some c \<and>
            current_conversation (after_check self (Is_Update update)) = Some k \<and>
            calls_of_check self (Is_Update update) =
              snd (get_state self k) @ map Entry_point_check (entry_points self) @
              States_get S #
              map Candidate_check
                (takeWhile (\<lambda>h. \<not> handler_check_update h update) (registered self S)) @
              [Candidate_check c]"
    if "find (\<lambda>h. handler_check_update h update) (registered self S) = Some c" for c
    using cu sel state_handlers_candidate [OF assms(4) that] by simp
  from first second show ?thesis by blast
qed

theorem check_update_reentry_fallthrough_witness:
  "user_and_chat (text_update ''Alice'') = Some (Some (User 1), Some (Chat 10)) \<and>
   make_key (Some (Chat 10)) (Some (User 1)) = Inr (Some 10, 1) \<and>
   fst (get_state (awaiting_name [name_handler] True) (Some 10, 1)) =
     Inr (PyStr ''AWAITING_NAME'') \<and>
   PyStr ''AWAITING_NAME'' \<noteq> PyNone \<and>
   allow_reentry (awaiting_name [name_handler] True) \<and>
   entry_points (awaiting_name [name_handler] True) = [start_handler] \<and>
   \<not> handler_check_update start_handler (text_update ''Alice'') \<and>
   find (\<lambda>h. handler_check_update h (text_update ''Alice''))
     (registered (awaiting_name [name_handler] True) (PyStr ''AWAITING_NAME'')) =
     Some name_handler \<and>
   returned (check_update (awaiting_name [name_handler] True)
     (Is_Update (text_update ''Alice''))) = Inr True \<and>
   current_handler (after_check (awaiting_name [name_handler] True)
     (Is_Update (text_update ''Alice''))) = Some name_handler \<and>
   States_get (PyStr ''AWAITING_NAME'') \<in>
     set (calls_of_check (awaiting_name [name_handler] True)
       (Is_Update (text_update ''Alice'')))"
proof -
  have h4: "PyStr ''AWAITING_NAME'' \<noteq> PyNone" by simp
  have h5: "allow_reentry (awaiting_name [name_handler] True)"
    by (simp add: awaiting_name_def init_def)
  have h6: "\<forall>e \<in> set (entry_points (awaiting_name [name_handler] True)).
      \<not> handler_check_update e (text_update ''Alice'')"
    by (simp add: awaiting_name_def init_def start_handler_def text_update_def no_update_def
        message_text_def)
  have st: "find (\<lambda>h. handler_check_update h (text_update ''Alice''))
     (registered (awaiting_name [name_handler] True) (PyStr ''AWAITING_NAME'')) =
     Some name_handler"
    by (simp add: awaiting_name_def init_def registered_def name_handler_def text_update_def
        no_update_def message_text_def)
  have eps: "entry_points (awaiting_name [name_handler] True) = [start_handler] \<and>
      \<not> handler_check_update start_handler (text_update ''Alice'')"
    by (simp add: awaiting_name_def init_def start_handler_def text_update_def
        no_update_def message_text_def)
  show ?thesis
    using check_update_reentry_fallthrough
      [OF text_update_sender text_update_key awaiting_name_state h4 h5 h6]
      text_update_sender [of "''Alice''"] text_update_key
      awaiting_name_state [of "[name_handler]" True] h5 eps st
    by simp
qed

text \<open>
  C7: for an identity without a stored state, the only handlers asked are entry points. When
  none accepts, the check returns \<open>False\<close> and leaves the instance as it was; the state table
  is not looked up and no fallback is asked. When one accepts, the first such is selected.
\<close>

theorem check_update_no_state:
  assumes "user_and_chat update = Some (user, chat)"
    and "make_key chat user = Inr k"
    and "conversations self (Some k) = None"
  shows "(\<forall>c \<in> set (calls_of_check self (Is_Update update)).
            c = Debug_selecting k PyNone \<or>
            (\<exists>e \<in> set (entry_points self). c = Entry_point_check e)) \<and>
         ((\<forall>e \<in> set (entry_points self). \<not> handler_check_update e update) \<longrightarrow>
            returned (check_update self (Is_Update update)) = Inr False \<and>
            after_check self (Is_Update update) = self) \<and>
         (\<forall>e. find (\<lambda>h. handler_check_update h update) (entry_points self) = Some e \<longrightarrow>
            returned (check_update self (Is_Update update)) = Inr True \<and>
            current_handler (after_check self (Is_Update update)) = Some e \<and>
            current_conversation (after_check self (Is_Update update)) = Some k)"
proof -
  have st: "get_state self k = (Inr PyNone, [Debug_selecting k PyNone])"
    using assms(3) by (rule get_state_absent)
  then have fs: "fst (get_state self k) = Inr PyNone" by simp
  note cu = check_update_select [OF assms(1) assms(2) fs]
  show ?thesis
  proof (cases "find (\<lambda>h. handler_check_update h update) (entry_points self)")
    case None
    then have "select_handler self update PyNone =
        (Return_False, map Entry_point_check (entry_points self))"
      by (rule select_handler_no_state)
    with cu st None show ?thesis
      by (auto simp add: find_none_iff_all)
  next
    case (Some e)
    then have "select_handler self update PyNone =
        (Reached (Some e),
         map Entry_point_check
           (takeWhile (\<lambda>h. \<not> handler_check_update h update) (entry_points self)) @
         [Entry_point_check e])"
      by (simp add: select_handler_entry)
    with cu st Some find_some_mem [OF Some] show ?thesis
      by (auto simp add: find_none_iff_all dest: takeWhile_subset)
  qed
qed

theorem check_update_no_state_witness:
  "user_and_chat (text_update ''/cancel'') = Some (Some (User 1), Some (Chat 10)) \<and>
   make_key (Some (Chat 10)) (Some (User 1)) = Inr (Some 10, 1) \<and>
   conversations not_started (Some (Some 10, 1)) = None \<and>
   entry_points not_started = [start_handler] \<and>
   \<not> handler_check_update start_handler (text_update ''/cancel'') \<and>
   handler_check_update cancel_handler (text_update ''/cancel'') \<and>
   cancel_handler \<in> set (fallbacks not_started) \<and>
   returned (check_update not_started (Is_Update (text_update ''/cancel''))) = Inr False \<and>
   after_check not_started (Is_Update (text_update ''/cancel'')) = not_started \<and>
   Fallback_check cancel_handler \<notin>
     set (calls_of_check not_started (Is_Update (text_update ''/cancel'')))"
proof -
  have h3: "conversations not_started (Some (Some 10, 1)) = None"
    by (simp add: not_started_def init_def)
  have h4: "\<forall>e \<in> set (entry_points not_started).
      \<not> handler_check_update e (text_update ''/cancel'')"
    by (simp add: not_started_def init_def start_handler_def text_update_def no_update_def
        message_text_def)
  have f: "handler_check_update cancel_handler (text_update ''/cancel'') \<and>
      cancel_handler \<in> set (fallbacks not_started)"
    by (simp add: not_started_def init_def cancel_handler_def text_update_def no_update_def
        message_text_def)
  from check_update_no_state [OF text_update_sender text_update_key h3, of "''/cancel''"] h4
  have "returned (check_update not_started (Is_Update (text_update ''/cancel''))) = Inr False"
    and "after_check not_started (Is_Update (text_update ''/cancel'')) = not_started"
    and "\<forall>c \<in> set (calls_of_check not_started (Is_Update (text_update ''/cancel''))).
            c = Debug_selecting (Some 10, 1) PyNone \<or>
            (\<exists>e \<in> set (entry_points not_started). c = Entry_point_check e)"
    by blast+
  moreover have "entry_points not_started = [start_handler] \<and>
      \<not> handler_check_update start_handler (text_update ''/cancel'')"
    by (simp add: not_started_def init_def start_handler_def text_update_def no_update_def
        message_text_def)
  ultimately show ?thesis
    using text_update_sender [of "''/cancel''"] text_update_key h3 f by auto
qed

text \<open>
  C8: for an identity in a state \<open>S\<close>, when no entry point was selected (reentry is not
  allowed, or no entry point accepts). If a handler registered for \<open>S\<close> accepts, the first
  such in order is selected and no fallback is asked. Otherwise, also when nothing is
  registered for \<open>S\<close>, every handler registered for \<open>S\<close> has been asked and the fallbacks are
  asked in order: the first that accepts is selected, and when none does the check returns
  \<open>False\<close> and leaves the instance as it was.
\<close>

theorem check_update_state_then_fallbacks:
  assumes "user_and_chat update = Some (user, chat)"
    and "make_key chat user = Inr k"
    and "fst (get_state self k) = Inr S"
    and "S \<noteq> PyNone"
    and "allow_reentry self \<longrightarrow> (\<forall>e \<in> set (entry_points self). \<not> handler_check_update e update)"
  shows "(case find (\<lambda>h. handler_check_update h update) (registered self S) of
            Some c \<Rightarrow>
              returned (check_update self (Is_Update update)) = Inr True \<and>
              current_handler (after_check self (Is_Update update)) = Some c \<and>
              (\<forall>f. Fallback_check f \<notin> set (calls_of_check self (Is_Update update)))
          | None \<Rightarrow>
             (case find (\<lambda>h. handler_check_update h update) (fallbacks self) of
                Some f \<Rightarrow>
                  returned (check_update self (Is_Update update)) = Inr True \<and>
                  current_handler (after_check self (Is_Update update)) = Some f \<and>
                  calls_of_check self (Is_Update update) =
                    snd (get_state self k) @
                    (if allow_reentry self then map Entry_point_check (entry_points self) else []) @
                    States_get S # map Candidate_check (registered self S) @
                    map Fallback_check
                      (takeWhile (\<lambda>h. \<not> handler_check_update h update) (fallbacks self)) @
                    [Fallback_check f]
              | None \<Rightarrow>
                  returned (check_update self (Is_Update update)) = Inr False \<and>
                  after_check self (Is_Update update) = self \<and>
                  calls_of_check self (Is_Update update) =
                    snd (get_state self k) @
                    (if allow_reentry self then map Entry_point_check (entry_points self) else []) @
                    States_get S # map Candidate_check (registered self S) @
                    map Fallback_check (fallbacks self)))"
proof -
  have sel: "select_handler self update S =
      (fst (state_handlers self update S None),
       (if allow_reentry self then map Entry_point_check (entry_points self) else []) @
       snd (state_handlers self update S None))"
  proof (cases "allow_reentry self")
    case True
    with assms(5) have "find (\<lambda>h. handler_check_update h update) (entry_points self) = None"
      by (simp add: find_none_iff_all)
    with True show ?thesis
      by (simp add: select_handler_fallthrough [OF assms(4)])
  next
    case False
    then show ?thesis by (simp add: select_handler_no_reentry [OF assms(4)])
  qed
  note cu = check_update_select [OF assms(1) assms(2) assms(3)]
  have pre: "\<And>f. Fallback_check f \<notin> set (snd (get_state self k))"
    by (auto dest: get_state_calls)
  show ?thesis
  proof (cases "find (\<lambda>h. handler_check_update h update) (registered self S)")
    case (Some c)
    show ?thesis
      using cu sel Some pre state_handlers_candidate [OF assms(4) Some] by auto
  next
    case None
    show ?thesis
    proof (cases "find (\<lambda>h. handler_check_update h update) (fallbacks self)")
      case (Some f)
      show ?thesis
        using cu sel None Some state_handlers_fallback [OF assms(4) None Some] by simp
    next
      case none': None
      show ?thesis
        using cu sel None none' state_handlers_nothing [OF assms(4) None none'] by simp
    qed
  qed
qed

theorem check_update_state_then_fallbacks_witness:
  "user_and_chat (text_update ''Alice'') = Some (Some (User 1), Some (Chat 10)) \<and>
   user_and_chat (text_update ''/cancel'') = Some (Some (User 1), Some (Chat 10)) \<and>
   user_and_chat (text_update ''/start'') = Some (Some (User 1), Some (Chat 10)) \<and>
   make_key (Some (Chat 10)) (Some (User 1)) = Inr (Some 10, 1) \<and>
   fst (get_state (awaiting_name [name_handler] False) (Some 10, 1)) =
     Inr (PyStr ''AWAITING_NAME'') \<and>
   PyStr ''AWAITING_NAME'' \<noteq> PyNone \<and>
   \<not> allow_reentry (awaiting_name [name_handler] False) \<and>
   returned (check_update (awaiting_name [name_handler] False)
     (Is_Update (text_update ''Alice''))) = Inr True \<and>
   current_handler (after_check (awaiting_name [name_handler] False)
     (Is_Update (text_update ''Alice''))) = Some name_handler \<and>
   Fallback_check cancel_handler \<notin>
     set (calls_of_check (awaiting_name [name_handler] False)
       (Is_Update (text_update ''Alice''))) \<and>
   returned (check_update (awaiting_name [name_handler] False)
     (Is_Update (text_update ''/cancel''))) = Inr True \<and>
   current_handler (after_check (awaiting_name [name_handler] False)
     (Is_Update (text_update ''/cancel''))) = Some cancel_handler \<and>
   returned (check_update (awaiting_name [name_handler] False)
     (Is_Update (text_update ''/start''))) = Inr False"
proof -
  have h4: "PyStr ''AWAITING_NAME'' \<noteq> PyNone" by simp
  have h5: "\<not> allow_reentry (awaiting_name [name_handler] False)"
    by (simp add: awaiting_name_def init_def)
  then have h5': "allow_reentry (awaiting_name [name_handler] False) \<longrightarrow>
      (\<forall>e \<in> set (entry_points (awaiting_name [name_handler] False)).
         \<not> handler_check_update e (text_update t))" for t
    by simp
  have alice: "find (\<lambda>h. handler_check_update h (text_update ''Alice''))
     (registered (awaiting_name [name_handler] False) (PyStr ''AWAITING_NAME'')) =
     Some name_handler"
    by (simp add: awaiting_name_def init_def registered_def name_handler_def text_update_def
        no_update_def message_text_def)
  have cancel: "find (\<lambda>h. handler_check_update h (text_update ''/cancel''))
       (registered (awaiting_name [name_handler] False) (PyStr ''AWAITING_NAME'')) = None \<and>
     find (\<lambda>h. handler_check_update h (text_update ''/cancel''))
       (fallbacks (awaiting_name [name_handler] False)) = Some cancel_handler"
    by (simp add: awaiting_name_def init_def registered_def name_handler_def cancel_handler_def
        text_update_def no_update_def message_text_def)
  have start: "find (\<lambda>h. handler_check_update h (text_update ''/start''))
       (registered (awaiting_name [name_handler] False) (PyStr ''AWAITING_NAME'')) = None \<and>
     find (\<lambda>h. handler_check_update h (text_update ''/start''))
       (fallbacks (awaiting_name [name_handler] False)) = None"
    by (simp add: awaiting_name_def init_def registered_def name_handler_def cancel_handler_def
        text_update_def no_update_def message_text_def)
  have a: "returned (check_update (awaiting_name [name_handler] False)
       (Is_Update (text_update ''Alice''))) = Inr True \<and>
     current_handler (after_check (awaiting_name [name_handler] False)
       (Is_Update (text_update ''Alice''))) = Some name_handler \<and>
     Fallback_check cancel_handler \<notin>
       set (calls_of_check (awaiting_name [name_handler] False)
         (Is_Update (text_update ''Alice'')))"
    using check_update_state_then_fallbacks
      [OF text_update_sender text_update_key awaiting_name_state h4 h5', of "''Alice''"] alice
    by simp
  have c: "returned (check_update (awaiting_name [name_handler] False)
       (Is_Update (text_update ''/cancel''))) = Inr True \<and>
     current_handler (after_check (awaiting_name [name_handler] False)
       (Is_Update (text_update ''/cancel''))) = Some cancel_handler"
    using check_update_state_then_fallbacks
      [OF text_update_sender text_update_key awaiting_name_state h4 h5', of "''/cancel''"] cancel
    by simp
  have s: "returned (check_update (awaiting_name [name_handler] False)
       (Is_Update (text_update ''/start''))) = Inr False"
    using check_update_state_then_fallbacks
      [OF text_update_sender text_update_key awaiting_name_state h4 h5', of "''/start''"] start
    by simp
  show ?thesis
    using a c s h5 text_update_sender text_update_key
      awaiting_name_state [of "[name_handler]" False]
    by simp
qed

end
